theory Spec2Isabelle
  imports Complex_Main "HOL-Library.Multiset"
begin

section \<open>Data model\<close>

text \<open>
  The imputation tool (\<^verbatim>\<open>Missing value imputation.py\<close>) works on a pandas DataFrame.
  A cell is the missing marker (pandas \<^verbatim>\<open>NaN\<close>), a number or a string. Numbers keep
  the two infinities apart from the finite values, because the tool treats them
  differently; finite values are rationals, so binary rounding of float64 is not part of
  the model. A frame is the ordered list of its named columns.
\<close>

datatype num = Finite rat | PInf | NInf

datatype cell = NaN | Num num | Str string

type_synonym series = "cell list"

type_synonym dataframe = "(string \<times> series) list"

datatype exn = KeyError string | TypeError | ValueError | LibraryError string

definition columns :: "dataframe \<Rightarrow> string list" where
  "columns df = map fst df"

text \<open>\<^verbatim>\<open>len(df)\<close>: the number of rows, read off the first column.\<close>

definition len :: "dataframe \<Rightarrow> nat" where
  "len df = (case df of [] \<Rightarrow> 0 | c # _ \<Rightarrow> length (snd c))"

definition isna :: "cell \<Rightarrow> bool" where
  "isna c = (c = NaN)"

section \<open>Sanitization (start\_imputation, lines 80--86)\<close>

text \<open>\<^verbatim>\<open>df.replace([np.inf, -np.inf], np.nan)\<close>, cell by cell.\<close>

definition replace_inf_cell :: "cell \<Rightarrow> cell" where
  "replace_inf_cell c = (if c = Num PInf \<or> c = Num NInf then NaN else c)"

definition replace_inf :: "dataframe \<Rightarrow> dataframe" where
  "replace_inf df = map (\<lambda>c. (fst c, map replace_inf_cell (snd c))) df"

text \<open>
  \<^verbatim>\<open>df.replace(r'^\s*$', np.nan, regex=True)\<close>: a string made of whitespace only,
  the empty string included, becomes NaN. \<open>is_space\<close> is the ASCII part of Python's
  \<^verbatim>\<open>\s\<close>.
\<close>

definition is_space :: "char \<Rightarrow> bool" where
  "is_space c = ((of_char c :: nat) \<in> {9, 10, 11, 12, 13, 28, 29, 30, 31, 32})"

definition blank :: "string \<Rightarrow> bool" where
  "blank s = list_all is_space s"

definition replace_blank_cell :: "cell \<Rightarrow> cell" where
  "replace_blank_cell c = (case c of Str s \<Rightarrow> (if blank s then NaN else c) | _ \<Rightarrow> c)"

definition replace_blank :: "dataframe \<Rightarrow> dataframe" where
  "replace_blank df = map (\<lambda>c. (fst c, map replace_blank_cell (snd c))) df"

text \<open>
  \<^verbatim>\<open>pd.to_numeric(series, errors='coerce')\<close> on one cell. Which strings pandas reads as
  numbers is decided inside pandas, so the string parser is a parameter: \<open>None\<close> is a
  string that does not parse, which \<^verbatim>\<open>errors='coerce'\<close> turns into NaN. Numeric cells
  and NaN pass through.
\<close>

definition to_numeric_cell :: "(string \<Rightarrow> num option) \<Rightarrow> cell \<Rightarrow> cell" where
  "to_numeric_cell parse c =
     (case c of Str s \<Rightarrow> (case parse s of None \<Rightarrow> NaN | Some v \<Rightarrow> Num v) | _ \<Rightarrow> c)"

text \<open>\<^verbatim>\<open>df[col] = new\<close>: the column keeps its position.\<close>

definition setitem :: "dataframe \<Rightarrow> string \<Rightarrow> series \<Rightarrow> dataframe" where
  "setitem df col new = map (\<lambda>c. if fst c = col then (fst c, new) else c) df"

text \<open>
  \<^verbatim>\<open>df[col] = pd.to_numeric(df[col], errors='coerce')\<close>. \<^verbatim>\<open>df[col]\<close> raises KeyError
  when no column has that name; when several columns share the name it is a DataFrame,
  which \<^verbatim>\<open>pd.to_numeric\<close> rejects with TypeError.
\<close>

definition to_numeric_col :: "(string \<Rightarrow> num option) \<Rightarrow> dataframe \<Rightarrow> string \<Rightarrow> exn + dataframe" where
  "to_numeric_col parse df col =
     (case filter (\<lambda>c. fst c = col) df of
        [] \<Rightarrow> Inl (KeyError col)
      | [c] \<Rightarrow> Inr (setitem df col (map (to_numeric_cell parse) (snd c)))
      | _ \<Rightarrow> Inl TypeError)"

text \<open>\<^verbatim>\<open>for col in num_cols: ...\<close>; the first exception ends the loop.\<close>

fun coerce_columns :: "(string \<Rightarrow> num option) \<Rightarrow> string list \<Rightarrow> dataframe \<Rightarrow> exn + dataframe" where
  "coerce_columns parse [] df = Inr df"
| "coerce_columns parse (col # cols) df =
     (case to_numeric_col parse df col of
        Inl e \<Rightarrow> Inl e
      | Inr df' \<Rightarrow> coerce_columns parse cols df')"

definition sanitize :: "(string \<Rightarrow> num option) \<Rightarrow> string list \<Rightarrow> dataframe \<Rightarrow> exn + dataframe" where
  "sanitize parse num_cols data0 =
     coerce_columns parse num_cols (replace_blank (replace_inf data0))"



text \<open>
  A parser for concrete inputs: the literals \<^verbatim>\<open>inf\<close> and \<^verbatim>\<open>-inf\<close>, which pandas reads
  as the two infinities, and unsigned decimal integers. Every other string is left
  unparsed; the concrete inputs below use only strings on which this agrees with pandas.
\<close>

definition digit_of :: "char \<Rightarrow> nat option" where
  "digit_of c = (let n = (of_char c :: nat) in if 48 \<le> n \<and> n \<le> 57 then Some (n - 48) else None)"

fun digits_acc :: "nat \<Rightarrow> string \<Rightarrow> nat option" where
  "digits_acc a [] = Some a"
| "digits_acc a (c # cs) =
     (case digit_of c of None \<Rightarrow> None | Some d \<Rightarrow> digits_acc (10 * a + d) cs)"

definition parse_literals :: "string \<Rightarrow> num option" where
  "parse_literals s =
     (if s = ''inf'' then Some PInf
      else if s = ''-inf'' then Some NInf
      else if s = [] then None
      else map_option (\<lambda>n. Finite (of_nat n)) (digits_acc 0 s))"

section \<open>Missingness table (make\_missingness\_table, lines 60--69)\<close>

record row =
  variable :: string
  missing_n :: nat
  missing_pct :: "rat option"

text \<open>\<^verbatim>\<open>df.isna().sum()\<close> for one column.\<close>

definition count_na :: "series \<Rightarrow> nat" where
  "count_na xs = length (filter isna xs)"

text \<open>
  \<^verbatim>\<open>.round(2)\<close>: two decimals, a tie going to the even neighbour, computed on the exact
  quotient.
\<close>

definition rint :: "rat \<Rightarrow> int" where
  "rint q =
     (let f = \<lfloor>q\<rfloor>; r = q - of_int f
      in if r < 1 / 2 then f else if 1 / 2 < r then f + 1 else if even f then f else f + 1)"

definition round2 :: "rat \<Rightarrow> rat" where
  "round2 q = of_int (rint (q * 100)) / 100"

text \<open>
  \<^verbatim>\<open>(miss_n / total * 100.0).round(2)\<close> for one column. \<open>None\<close> is NaN: every column of
  a frame has \<^verbatim>\<open>total\<close> cells, so with \<^verbatim>\<open>total = 0\<close> the count is 0 and pandas computes
  0/0, which is NaN and stays NaN when rounded.
\<close>

definition pct_of :: "nat \<Rightarrow> nat \<Rightarrow> rat option" where
  "pct_of n n_rows =
     (if n_rows = 0 then None else Some (round2 (of_nat n / of_nat n_rows * 100)))"

text \<open>
  \<^verbatim>\<open>sort_values("missing_pct(%)", ascending=False)\<close> is called without \<^verbatim>\<open>kind\<close>, so
  pandas sorts with its default \<^verbatim>\<open>quicksort\<close>, which its documentation lists as not
  stable. The sort is therefore a parameter of the table, and \<open>sort_values_contract\<close> is
  what pandas promises of it: the rows are permuted into descending order of
  \<^verbatim>\<open>missing_pct(%)\<close>, NaN last. \<open>pct_ge a b\<close>: a row with percentage \<open>a\<close> may stand
  before one with \<open>b\<close>.
\<close>

definition pct_ge :: "rat option \<Rightarrow> rat option \<Rightarrow> bool" where
  "pct_ge a b =
     (case b of None \<Rightarrow> True | Some y \<Rightarrow> (case a of None \<Rightarrow> False | Some x \<Rightarrow> y \<le> x))"



definition make_missingness_table :: "(row list \<Rightarrow> row list) \<Rightarrow> dataframe \<Rightarrow> row list" where
  "make_missingness_table sort_values df =
     (let n_rows = len df;
          miss_n = map (\<lambda>c. count_na (snd c)) df;
          miss_pct = map (\<lambda>n. pct_of n n_rows) miss_n
      in sort_values
           (map (\<lambda>(v, n, p). \<lparr>variable = v, missing_n = n, missing_pct = p\<rparr>)
              (zip (columns df) (zip miss_n miss_pct))))"



text \<open>
  Two sorts that meet the contract. \<open>stable_sort_desc\<close> is an insertion sort that keeps
  rows of equal percentage in their original order; \<open>rev_tie_sort\<close> leaves them in the
  opposite order.
\<close>

fun insert_desc :: "row \<Rightarrow> row list \<Rightarrow> row list" where
  "insert_desc r [] = [r]"
| "insert_desc r (x # xs) =
     (if pct_ge (missing_pct r) (missing_pct x) then r # x # xs else x # insert_desc r xs)"

definition stable_sort_desc :: "row list \<Rightarrow> row list" where
  "stable_sort_desc rows = foldr insert_desc rows []"


section \<open>The run (start\_imputation, lines 72--155)\<close>

text \<open>
  What the function takes from its libraries: the string parser of \<^verbatim>\<open>pd.to_numeric\<close>,
  the sort of \<^verbatim>\<open>sort_values\<close>, and the three calls into miceforest, each of which may
  raise. \<open>'k\<close> is the type of the kernel object.
\<close>

record 'k library =
  parse_number :: "string \<Rightarrow> num option"
  sort_values :: "row list \<Rightarrow> row list"
  ImputationKernel :: "dataframe \<Rightarrow> nat \<Rightarrow> exn + 'k"
  mice :: "'k \<Rightarrow> nat \<Rightarrow> exn + 'k"
  complete_data :: "'k \<Rightarrow> nat \<Rightarrow> exn + dataframe"

text \<open>
  The module's globals that the function reads. \<open>num_cols\<close> is the list of names
  selected in the listbox, which holds the column names of \<open>data\<close>.
\<close>

record gui =
  data :: "dataframe option"
  num_cols :: "string list"
  output_folder :: "string option"
  output_excel_path :: "string option"

datatype sheet = Missingness "row list" | Data_Original dataframe | Data_Imputed dataframe

datatype figure = Histogram | Pies

datatype message = SelectFileFirst | NothingToImpute | ImputationDone | ImputationFailed exn

datatype event =
    NewKernel nat
  | Mice nat
  | CompleteData nat
  | WriteExcel string "sheet list"
  | SaveFig string string figure
  | ShowError message
  | ShowInfo message

text \<open>
  The function returns nothing. An outcome is what a call did: its effects in order, the
  exception it let escape (if any), the globals afterwards, and the completed frames it
  obtained (the local \<^verbatim>\<open>completed_df\<close>). Writing the workbook and saving a figure are
  events; that the file system refuses them is not modelled.
\<close>

record outcome =
  events :: "event list"
  raised :: "exn option"
  globals :: gui
  completed :: "dataframe list"

text \<open>
  \<^verbatim>\<open>[col for col in df.columns if df[col].isnull().any()]\<close>. With a repeated column
  name \<^verbatim>\<open>df[col]\<close> is a DataFrame, \<^verbatim>\<open>.any()\<close> a Series, and its truth value raises
  ValueError.
\<close>

fun missing_columns :: "dataframe \<Rightarrow> string list \<Rightarrow> exn + string list" where
  "missing_columns df [] = Inr []"
| "missing_columns df (col # cols) =
     (case filter (\<lambda>c. fst c = col) df of
        [] \<Rightarrow> Inl (KeyError col)
      | [c] \<Rightarrow>
          (case missing_columns df cols of
             Inl e \<Rightarrow> Inl e
           | Inr rest \<Rightarrow> Inr (if list_ex isna (snd c) then col # rest else rest))
      | _ \<Rightarrow> Inl ValueError)"

text \<open>\<^verbatim>\<open>if output_excel_path: with pd.ExcelWriter(...) ...\<close>; None and the empty string are falsy.\<close>

definition write_excel :: "string option \<Rightarrow> sheet list \<Rightarrow> event list" where
  "write_excel path sheets =
     (case path of None \<Rightarrow> [] | Some p \<Rightarrow> if p = [] then [] else [WriteExcel p sheets])"

text \<open>\<^verbatim>\<open>if output_folder: for col in missing_columns: ... plt.savefig(...)\<close>.\<close>

definition save_figures :: "string option \<Rightarrow> string list \<Rightarrow> string list \<Rightarrow> event list" where
  "save_figures folder missing nums =
     (case folder of
        None \<Rightarrow> []
      | Some f \<Rightarrow>
          if f = [] then []
          else map (\<lambda>col. SaveFig f col (if col \<in> set nums then Histogram else Pies)) missing)"

text \<open>
  Lines 102--104, the first three statements of the \<^verbatim>\<open>try\<close> block: the calls made, and
  the completed frame or the exception that ended them.
\<close>

definition run_mice :: "'k library \<Rightarrow> dataframe \<Rightarrow> event list \<times> (exn + dataframe)" where
  "run_mice lib df =
     (case ImputationKernel lib df 42 of
        Inl e \<Rightarrow> ([NewKernel 42], Inl e)
      | Inr k \<Rightarrow>
          (case mice lib k 3 of
             Inl e \<Rightarrow> ([NewKernel 42, Mice 3], Inl e)
           | Inr k' \<Rightarrow>
               (case complete_data lib k' 0 of
                  Inl e \<Rightarrow> ([NewKernel 42, Mice 3, CompleteData 0], Inl e)
                | Inr completed_df \<Rightarrow> ([NewKernel 42, Mice 3, CompleteData 0], Inr completed_df))))"

definition start_imputation :: "'k library \<Rightarrow> gui \<Rightarrow> outcome" where
  "start_imputation lib g =
     (case data g of
        None \<Rightarrow> \<lparr>events = [ShowError SelectFileFirst], raised = None, globals = g, completed = []\<rparr>
      | Some d \<Rightarrow>
          (case sanitize (parse_number lib) (num_cols g) d of
             Inl e \<Rightarrow> \<lparr>events = [], raised = Some e, globals = g, completed = []\<rparr>
           | Inr df \<Rightarrow>
               (let missingness_df = make_missingness_table (sort_values lib) df
                in case missing_columns df (columns df) of
                     Inl e \<Rightarrow> \<lparr>events = [], raised = Some e, globals = g, completed = []\<rparr>
                   | Inr missing \<Rightarrow>
                       if missing = [] then
                         \<lparr>events =
                            write_excel (output_excel_path g)
                              [Missingness missingness_df, Data_Original df]
                            @ [ShowInfo NothingToImpute],
                          raised = None, globals = g, completed = []\<rparr>
                       else
                         (case run_mice lib df of
                            (calls, Inl e) \<Rightarrow>
                              \<lparr>events = calls @ [ShowError (ImputationFailed e)],
                               raised = None, globals = g, completed = []\<rparr>
                          | (calls, Inr completed_df) \<Rightarrow>
                              \<lparr>events =
                                 calls
                                 @ write_excel (output_excel_path g)
                                     [Missingness missingness_df, Data_Original df,
                                      Data_Imputed completed_df]
                                 @ save_figures (output_folder g) missing (num_cols g)
                                 @ [ShowInfo ImputationDone],
                               raised = None, globals = g, completed = [completed_df]\<rparr>))))"


fun is_output :: "event \<Rightarrow> bool" where
  "is_output (WriteExcel _ _) = True"
| "is_output (SaveFig _ _ _) = True"
| "is_output _ = False"

text \<open>
  Two stand-ins for the libraries, to evaluate the run at concrete inputs: one whose
  engine fills every MISSING cell with 0, one whose \<^verbatim>\<open>mice\<close> call raises.
\<close>

definition fill_zero :: "dataframe \<Rightarrow> dataframe" where
  "fill_zero df = map (\<lambda>c. (fst c, map (\<lambda>x. if isna x then Num (Finite 0) else x) (snd c))) df"

definition demo_library :: "dataframe library" where
  "demo_library =
     \<lparr>parse_number = parse_literals, sort_values = stable_sort_desc,
      ImputationKernel = (\<lambda>df seed. Inr df), mice = (\<lambda>k n. Inr k),
      complete_data = (\<lambda>k i. Inr (fill_zero k))\<rparr>"

definition failing_library :: "dataframe library" where
  "failing_library = demo_library\<lparr>mice := (\<lambda>k n. Inl (LibraryError ''mice''))\<rparr>"

text \<open>Some cell of the frame is MISSING.\<close>

definition has_missing :: "dataframe \<Rightarrow> bool" where
  "has_missing df = list_ex (\<lambda>c. list_ex isna (snd c)) df"


section \<open>Sanitization: lemmas\<close>

lemma columns_setitem: "columns (setitem df col new) = columns df"
  by (induction df) (auto simp: setitem_def columns_def)

lemma columns_replace_inf: "columns (replace_inf df) = columns df"
  by (simp add: replace_inf_def columns_def comp_def)

lemma columns_replace_blank: "columns (replace_blank df) = columns df"
  by (simp add: replace_blank_def columns_def comp_def)

lemma filter_name_distinct:
  "distinct (map fst df) \<Longrightarrow> (col, xs) \<in> set df \<Longrightarrow> filter (\<lambda>c. fst c = col) df = [(col, xs)]"
proof (induction df)
  case Nil
  then show ?case by simp
next
  case (Cons a df)
  show ?case
  proof (cases "a = (col, xs)")
    case True
    with Cons.prems have "\<forall>c \<in> set df. fst c \<noteq> col" by force
    then have "filter (\<lambda>c. fst c = col) df = []" by (simp add: filter_empty_conv)
    with True show ?thesis by simp
  next
    case False
    with Cons.prems have in_df: "(col, xs) \<in> set df" by simp
    then have "col \<in> fst ` set df" by force
    with Cons.prems(1) have "fst a \<noteq> col" by auto
    with Cons.IH Cons.prems in_df show ?thesis by simp
  qed
qed






section \<open>Missingness table: lemmas\<close>












section \<open>The run: lemmas\<close>

lemma filter_name_empty: "(filter (\<lambda>c. fst c = col) df = []) = (col \<notin> set (map fst df))"
  by (auto simp: filter_empty_conv)

lemma to_numeric_col_Inr:
  "to_numeric_col parse df col = Inr df' \<Longrightarrow> map fst df' = map fst df \<and> col \<in> set (map fst df)"
proof -
  assume a: "to_numeric_col parse df col = Inr df'"
  then obtain c where f: "filter (\<lambda>c. fst c = col) df = [c]"
    and r: "df' = setitem df col (map (to_numeric_cell parse) (snd c))"
    by (auto simp: to_numeric_col_def split: list.splits)
  from f have "col \<in> set (map fst df)"
    using filter_name_empty [of col df] by auto
  moreover from r have "map fst df' = map fst df"
    using columns_setitem by (simp add: columns_def)
  ultimately show ?thesis by simp
qed


lemma coerce_columns_Inr:
  "coerce_columns parse cols df = Inr df' \<Longrightarrow>
     map fst df' = map fst df \<and> set cols \<subseteq> set (map fst df)"
proof (induction cols arbitrary: df)
  case Nil
  then show ?case by simp
next
  case (Cons col cols)
  from Cons.prems obtain d1 where s1: "to_numeric_col parse df col = Inr d1"
    and s2: "coerce_columns parse cols d1 = Inr df'"
    by (auto split: sum.splits)
  from to_numeric_col_Inr [OF s1] Cons.IH [OF s2] show ?case by simp
qed


lemma columns_presanitize: "map fst (replace_blank (replace_inf d)) = map fst d"
  using columns_replace_blank [of "replace_inf d"] columns_replace_inf [of d]
  by (simp add: columns_def)

lemma sanitize_Inr:
  assumes "sanitize parse nums d = Inr df"
  shows "columns df = columns d \<and> set nums \<subseteq> set (columns d)"
proof -
  from assms have "coerce_columns parse nums (replace_blank (replace_inf d)) = Inr df"
    by (simp add: sanitize_def)
  from coerce_columns_Inr [OF this] show ?thesis
    unfolding columns_presanitize columns_def .
qed


lemma missing_columns_distinct:
  "distinct (map fst df) \<Longrightarrow> set cs \<subseteq> set df \<Longrightarrow>
     missing_columns df (map fst cs) = Inr (map fst (filter (\<lambda>c. list_ex isna (snd c)) cs))"
proof (induction cs)
  case Nil
  then show ?case by simp
next
  case (Cons c cs)
  then have "(fst c, snd c) \<in> set df" by simp
  from filter_name_distinct [OF Cons.prems(1) this]
  have "filter (\<lambda>x. fst x = fst c) df = [c]" by simp
  with Cons show ?case by simp
qed




lemma has_missing_filter:
  "has_missing df = (map fst (filter (\<lambda>c. list_ex isna (snd c)) df) \<noteq> [])"
  by (auto simp: has_missing_def list_ex_iff filter_empty_conv)

lemma start_imputation_sanitized:
  assumes "data g = Some d" and "distinct (columns d)"
    and "sanitize (parse_number lib) (num_cols g) d = Inr df"
  shows "start_imputation lib g =
     (if \<not> has_missing df then
        \<lparr>events =
           write_excel (output_excel_path g)
             [Missingness (make_missingness_table (sort_values lib) df), Data_Original df]
           @ [ShowInfo NothingToImpute],
         raised = None, globals = g, completed = []\<rparr>
      else
        (case run_mice lib df of
           (calls, Inl e) \<Rightarrow>
             \<lparr>events = calls @ [ShowError (ImputationFailed e)],
              raised = None, globals = g, completed = []\<rparr>
         | (calls, Inr completed_df) \<Rightarrow>
             \<lparr>events =
                calls
                @ write_excel (output_excel_path g)
                    [Missingness (make_missingness_table (sort_values lib) df), Data_Original df,
                     Data_Imputed completed_df]
                @ save_figures (output_folder g)
                    (map fst (filter (\<lambda>c. list_ex isna (snd c)) df)) (num_cols g)
                @ [ShowInfo ImputationDone],
              raised = None, globals = g, completed = [completed_df]\<rparr>))"
proof -
  from sanitize_Inr [OF assms(3)] assms(2) have "distinct (map fst df)"
    by (simp add: columns_def)
  from missing_columns_distinct [OF this subset_refl]
  have mc: "missing_columns df (columns df) = Inr (map fst (filter (\<lambda>c. list_ex isna (snd c)) df))"
    by (simp add: columns_def)
  show ?thesis
    by (simp add: start_imputation_def assms(1) assms(3) mc Let_def has_missing_filter)
qed

lemma run_mice_calls:
  "fst (run_mice lib df) = [NewKernel 42] \<or> fst (run_mice lib df) = [NewKernel 42, Mice 3]
   \<or> fst (run_mice lib df) = [NewKernel 42, Mice 3, CompleteData 0]"
  by (simp add: run_mice_def split: sum.splits)










section \<open>Claims\<close>








text \<open>
  C10. In every run that reaches the chained-equations step (a dataset is loaded, its
  column names are unique, and the sanitized frame has a MISSING cell) and in which
  building the kernel, \<^verbatim>\<open>mice\<close> or \<^verbatim>\<open>complete_data\<close> raises, the function shows the
  failure in an error dialog after the library calls already made and does nothing else:
  no workbook is written and no figure saved, no exception escapes, the globals (the
  loaded dataset among them) are as before, and no completed frame exists.
\<close>

theorem engine_failure_is_caught:
  assumes "data g = Some d" and "distinct (columns d)"
    and "sanitize (parse_number lib) (num_cols g) d = Inr df"
    and "has_missing df"
    and "snd (run_mice lib df) = Inl e"
  shows "start_imputation lib g =
           \<lparr>events = fst (run_mice lib df) @ [ShowError (ImputationFailed e)],
            raised = None, globals = g, completed = []\<rparr>
       \<and> \<not> list_ex is_output (events (start_imputation lib g))"
proof -
  have s: "start_imputation lib g =
           \<lparr>events = fst (run_mice lib df) @ [ShowError (ImputationFailed e)],
            raised = None, globals = g, completed = []\<rparr>"
  proof -
    obtain calls r where rm: "run_mice lib df = (calls, r)" by (cases "run_mice lib df")
    with assms(5) have "r = Inl e" by simp
    with rm assms(4) show ?thesis
      by (simp add: start_imputation_sanitized [OF assms(1,2,3)])
  qed
  from run_mice_calls [of lib df]
  have "\<not> list_ex is_output (fst (run_mice lib df) @ [ShowError (ImputationFailed e)])"
    by auto
  with s show ?thesis by simp
qed

theorem engine_failure_is_caught_witness:
  "start_imputation failing_library
     \<lparr>data = Some [(''age'', [Str ''12'', Str '' '', Str ''7'']), (''grade'', [Str ''A'', Str ''B'', NaN])],
      num_cols = [''age''], output_folder = Some ''figs'', output_excel_path = Some ''out.xlsx''\<rparr>
   = \<lparr>events = [NewKernel 42, Mice 3, ShowError (ImputationFailed (LibraryError ''mice''))],
      raised = None,
      globals = \<lparr>data = Some [(''age'', [Str ''12'', Str '' '', Str ''7'']), (''grade'', [Str ''A'', Str ''B'', NaN])],
         num_cols = [''age''], output_folder = Some ''figs'', output_excel_path = Some ''out.xlsx''\<rparr>,
      completed = []\<rparr>"
proof -
  let ?d = "[(''age'', [Str ''12'', Str '' '', Str ''7'']), (''grade'', [Str ''A'', Str ''B'', NaN])]"
  let ?df = "[(''age'', [Num (Finite 12), NaN, Num (Finite 7)]), (''grade'', [Str ''A'', Str ''B'', NaN])]"
  let ?g = "\<lparr>data = Some ?d, num_cols = [''age''], output_folder = Some ''figs'',
             output_excel_path = Some ''out.xlsx''\<rparr>"
  have 1: "data ?g = Some ?d" by simp
  have 2: "distinct (columns ?d)" by (simp add: columns_def)
  have 3: "sanitize (parse_number failing_library) (num_cols ?g) ?d = Inr ?df"
    by (simp add: sanitize_def replace_inf_def replace_inf_cell_def replace_blank_def
          replace_blank_cell_def blank_def is_space_def to_numeric_col_def setitem_def
          to_numeric_cell_def failing_library_def demo_library_def parse_literals_def digit_of_def)
  have 4: "has_missing ?df" by (simp add: has_missing_def isna_def)
  have 5: "snd (run_mice failing_library ?df) = Inl (LibraryError ''mice'')"
    by (simp add: run_mice_def failing_library_def demo_library_def)
  have 6: "fst (run_mice failing_library ?df) = [NewKernel 42, Mice 3]"
    by (simp add: run_mice_def failing_library_def demo_library_def)
  from engine_failure_is_caught [OF 1 2 3 4 5] show ?thesis
    by (simp add: 6)
qed












end
